theory Spec2Isabelle
  imports Main
begin

section \<open>Worker process supervisor (class WorkerConnection, child-process variant)\<close>

text \<open>
  The class keeps one field, \<^verbatim>\<open>worker\<close>, the handle of the child process forked last.
  Everything else it touches belongs to the host: the processes it forks, the timers it
  arms with \<^verbatim>\<open>setTimeout\<close>, the console, and the signals it sends. The model puts these
  in one record and passes it through every operation.

  A child is identified by the number of forks that preceded it. The status handed to an
  exit listener is a number, or \<^verbatim>\<open>null\<close> when the child was ended by a signal; it is an
  \<open>int option\<close> here, \<open>None\<close> standing for \<^verbatim>\<open>null\<close>.
\<close>

datatype console_line = ConsoleError string | ConsoleInfo string

datatype callback = StartWorker

record WorkerConnection =
  worker :: nat
  forked :: nat
  timers :: "(nat \<times> callback) list"
  console :: "console_line list"
  signals :: "(nat \<times> string) list"

definition digit_char :: "nat \<Rightarrow> char" where
  "digit_char d = ''0123456789'' ! d"

fun show_nat :: "nat \<Rightarrow> string" where
  "show_nat n = (if n < 10 then [digit_char n] else show_nat (n div 10) @ [digit_char (n mod 10)])"

declare show_nat.simps [simp del]

definition show_int :: "int \<Rightarrow> string" where
  "show_int i = (if i < 0 then CHR ''-'' # show_nat (nat (- i)) else show_nat (nat i))"

text \<open>How a template literal prints the exit status.\<close>

definition show_status :: "int option \<Rightarrow> string" where
  "show_status st = (case st of None \<Rightarrow> ''null'' | Some i \<Rightarrow> show_int i)"

text \<open>\<^verbatim>\<open>startWorker\<close>: fork a child and store its handle in \<^verbatim>\<open>this.worker\<close>.\<close>

definition startWorker :: "WorkerConnection \<Rightarrow> WorkerConnection" where
  "startWorker s = s\<lparr>worker := forked s, forked := Suc (forked s)\<rparr>"

text \<open>
  The listener attached to every forked child for its \<^verbatim>\<open>exit\<close> event. The test is
  \<^verbatim>\<open>status !== 0\<close>, which \<^verbatim>\<open>null\<close> passes as well as any non-zero number.
\<close>

definition on_exit :: "int option \<Rightarrow> WorkerConnection \<Rightarrow> WorkerConnection" where
  "on_exit status s =
     (if status \<noteq> Some 0 then
        s\<lparr>console := console s @
               [ConsoleError (''Worker exited with '' @ show_status status),
                ConsoleInfo ''Restarting in 5 seconds''],
          timers := timers s @ [(5000, StartWorker)]\<rparr>
      else s)"

definition run_callback :: "callback \<Rightarrow> WorkerConnection \<Rightarrow> WorkerConnection" where
  "run_callback cb s = (case cb of StartWorker \<Rightarrow> startWorker s)"

text \<open>The host fires the oldest pending timer (all of them carry the same delay).\<close>

definition fire_timer :: "WorkerConnection \<Rightarrow> WorkerConnection" where
  "fire_timer s =
     (case timers s of
        [] \<Rightarrow> s
      | (delay, cb) # rest \<Rightarrow> run_callback cb (s\<lparr>timers := rest\<rparr>))"

text \<open>The constructor defines \<^verbatim>\<open>startWorker\<close> and calls it once.\<close>

definition new_WorkerConnection :: WorkerConnection where
  "new_WorkerConnection =
     startWorker \<lparr>worker = 0, forked = 0, timers = [], console = [], signals = []\<rparr>"

text \<open>\<^verbatim>\<open>stop()\<close> is \<^verbatim>\<open>this.worker.kill("SIGHUP")\<close>: a signal to the current child and nothing else.\<close>

definition stop :: "WorkerConnection \<Rightarrow> WorkerConnection" where
  "stop s = s\<lparr>signals := signals s @ [(worker s, ''SIGHUP'')]\<rparr>"

section \<open>Connection configurations and connection objects\<close>

text \<open>
  \<^verbatim>\<open>ConnectionBackend\<close> and \<^verbatim>\<open>ConnectionConfig\<close> are declared in a module the functions
  below import. The record has the fields those functions read or write. The enum has its
  three members and one more constructor for a \<^verbatim>\<open>backend\<close> value that is none of them,
  which the \<^verbatim>\<open>switch\<close> of \<^verbatim>\<open>getConnectionForConfig\<close> leaves unmatched.

  An optional field is an \<open>option\<close>, \<open>None\<close> for \<^verbatim>\<open>undefined\<close>. The password needs one
  case more, because the pre-save handler tests \<^verbatim>\<open>'password' in connection\<close>: the key can
  be missing, present and \<^verbatim>\<open>undefined\<close>, or present with a string. \<^verbatim>\<open>isDefault\<close> and
  \<^verbatim>\<open>isGenerated\<close> are only ever tested for truthiness or overwritten with a boolean, so
  a missing flag is \<open>False\<close>.
\<close>

datatype ConnectionBackend = BigQuery | Postgres | DuckDB | OtherBackend string

datatype 'a property = Missing | Undefined | Value 'a

record ConnectionConfig =
  name :: string
  backend :: ConnectionBackend
  id' :: string
  isDefault :: bool
  isGenerated :: bool
  password :: "string property"
  useKeychainPassword :: "bool option"
  projectName :: "string option"
  serviceAccountKeyPath :: "string option"
  location :: "string option"
  username :: "string option"
  host :: "string option"
  port :: "int option"
  databaseName :: "string option"
  workingDirectory :: "string option"

record ConfigOptions =
  workingDirectory' :: string
  rowLimit :: "int option"
  usePool :: "bool option"

text \<open>
  A connection object is what its constructor was given, together with the identity of the
  object: the number of connection objects constructed before it. The Postgres
  connection receives a reader closed over the configuration, so it holds the
  configuration.
\<close>

datatype connection_data =
    BigQueryConnection string "int option" "string option" "string option" "string option"
  | PostgresConnection string "int option" ConnectionConfig
  | DuckDBConnection string string string
  | PrototypeMember string

record TestableConnection =
  ref :: nat
  made :: connection_data

datatype error =
    Error string
  | Thrown string
  | DuckDBError string string
  | InvalidURL string
  | KeychainError string

text \<open>
  The module-level \<^verbatim>\<open>ConnectionPool\<close> and the count of connection objects constructed so
  far. The pool is an object literal, \<^verbatim>\<open>{}\<close>, and the function reads it as
  \<^verbatim>\<open>ConnectionPool[name]\<close>, which follows the prototype chain: under the name of a member
  of \<^verbatim>\<open>Object.prototype\<close> the read yields that member although nothing was stored. The
  field is therefore what a read of the pool yields at each name, \<open>None\<close> for
  \<^verbatim>\<open>undefined\<close>. An inherited member is no connection; it is the value
  \<open>prototype_member\<close> of its name, with \<open>PrototypeMember\<close> for what it is made of, and
  it differs from every object a constructor returns. The function stores into the pool
  only after a read at the same name yielded \<^verbatim>\<open>undefined\<close>, so it never stores under
  the name of an inherited member.
\<close>

record runtime_state =
  ConnectionPool :: "string \<rightharpoonup> TestableConnection"
  allocated :: nat

definition object_prototype_members :: "string list" where
  "object_prototype_members =
     [''constructor'', ''__defineGetter__'', ''__defineSetter__'', ''hasOwnProperty'',
      ''__lookupGetter__'', ''__lookupSetter__'', ''isPrototypeOf'', ''propertyIsEnumerable'',
      ''toString'', ''valueOf'', ''__proto__'', ''toLocaleString'']"

definition inherited :: "string \<Rightarrow> bool" where
  "inherited n = (n \<in> set object_prototype_members)"

definition prototype_member :: "string \<Rightarrow> TestableConnection" where
  "prototype_member n = \<lparr>ref = 0, made = PrototypeMember n\<rparr>"

text \<open>What a read of \<^verbatim>\<open>{}\<close> yields: the inherited members and nothing else.\<close>

definition empty_pool :: "string \<rightharpoonup> TestableConnection" where
  "empty_pool n = (if inherited n then Some (prototype_member n) else None)"

text \<open>
  What the module reads from outside: the build-time flag \<^verbatim>\<open>isDuckDBAvailable\<close>, and
  whether the DuckDB constructor throws for a given name and working directory (the source
  catches that, logs and rethrows).
\<close>

record environment =
  isDuckDBAvailable :: bool
  duckdbThrows :: "string \<Rightarrow> string \<Rightarrow> bool"

definition fresh_state :: runtime_state where
  "fresh_state = \<lparr>ConnectionPool = empty_pool, allocated = 0\<rparr>"

definition construct :: "connection_data \<Rightarrow> runtime_state \<Rightarrow> TestableConnection \<times> runtime_state" where
  "construct d w = (\<lparr>ref = allocated w, made = d\<rparr>, w\<lparr>allocated := Suc (allocated w)\<rparr>)"

definition pool_put :: "bool option \<Rightarrow> string \<Rightarrow> TestableConnection \<Rightarrow> runtime_state \<Rightarrow> runtime_state" where
  "pool_put use n c w =
     (if use = Some True then w\<lparr>ConnectionPool := (ConnectionPool w)(n \<mapsto> c)\<rparr> else w)"

text \<open>\<^verbatim>\<open>a || b\<close> on an optional string: the empty string is falsy as well.\<close>

definition or_else :: "string option \<Rightarrow> string \<Rightarrow> string" where
  "or_else a b = (case a of None \<Rightarrow> b | Some s \<Rightarrow> if s = [] then b else s)"

text \<open>
  \<^verbatim>\<open>getConnectionForConfig\<close>. A rejected promise is \<open>Inl\<close>; a promise resolved with
  \<^verbatim>\<open>undefined\<close> is \<open>Inr None\<close>. The BigQuery and Postgres branches store the new object in
  the pool when \<^verbatim>\<open>usePool\<close> is set; the DuckDB branch does not.
\<close>

definition getConnectionForConfig ::
  "environment \<Rightarrow> ConnectionConfig \<Rightarrow> ConfigOptions \<Rightarrow> runtime_state
     \<Rightarrow> (error + TestableConnection option) \<times> runtime_state" where
  "getConnectionForConfig env connectionConfig opts w =
     (if usePool opts = Some True \<and> ConnectionPool w (name connectionConfig) \<noteq> None then
        (Inr (ConnectionPool w (name connectionConfig)), w)
      else
        (case backend connectionConfig of
           BigQuery \<Rightarrow>
             (let (connection, w1) =
                    construct (BigQueryConnection (name connectionConfig) (rowLimit opts)
                      (projectName connectionConfig) (serviceAccountKeyPath connectionConfig)
                      (location connectionConfig)) w
              in (Inr (Some connection),
                  pool_put (usePool opts) (name connectionConfig) connection w1))
         | Postgres \<Rightarrow>
             (let (connection, w1) =
                    construct (PostgresConnection (name connectionConfig) (rowLimit opts)
                      connectionConfig) w
              in (Inr (Some connection),
                  pool_put (usePool opts) (name connectionConfig) connection w1))
         | DuckDB \<Rightarrow>
             (if \<not> isDuckDBAvailable env then (Inl (Error ''DuckDB is not available.''), w)
              else
                (let dir = or_else (workingDirectory connectionConfig) (workingDirectory' opts)
                 in if duckdbThrows env (name connectionConfig) dir
                    then (Inl (DuckDBError (name connectionConfig) dir), w)
                    else
                      (let (connection, w1) =
                             construct (DuckDBConnection (name connectionConfig) '':memory:'' dir) w
                       in (Inr (Some connection), w1))))
         | OtherBackend b \<Rightarrow> (Inr None, w)))"

text \<open>The default of the second parameter, used by \<^verbatim>\<open>connectionForConfig\<close>.\<close>

definition default_options :: ConfigOptions where
  "default_options = \<lparr>workingDirectory' = ''/'', rowLimit = None, usePool = None\<rparr>"

definition connectionForConfig ::
  "environment \<Rightarrow> ConnectionConfig \<Rightarrow> runtime_state
     \<Rightarrow> (error + TestableConnection option) \<times> runtime_state" where
  "connectionForConfig env connectionConfig w =
     getConnectionForConfig env connectionConfig default_options w"

section \<open>Connection lookup and the connection manager\<close>

text \<open>
  The keys of \<^verbatim>\<open>configs\<close> are connection names and the symbol \<^verbatim>\<open>DEFAULT_CONFIG\<close>, which no
  name can equal.
\<close>

datatype config_key = DEFAULT_CONFIG | Named string

text \<open>
  A \<^verbatim>\<open>DynamicConnectionLookup\<close> caches the promise it obtained for a key, settled or
  rejected. Its cache and the manager's \<^verbatim>\<open>configs\<close> are maps over the keys stored in
  them; the properties below read them at the key \<^verbatim>\<open>DEFAULT_CONFIG\<close> only, a symbol that
  \<^verbatim>\<open>Object.prototype\<close> does not have. Its \<^verbatim>\<open>configs\<close> field is the manager's own \<^verbatim>\<open>configs\<close> object, which
  \<^verbatim>\<open>buildConfigMap\<close> updates in place and never replaces; \<open>lookupConnection\<close> therefore
  takes the manager's current map as an argument.
\<close>

record DynamicConnectionLookup =
  connections :: "config_key \<rightharpoonup> (error + TestableConnection option)"
  options :: ConfigOptions

record ConnectionManager =
  connectionLookups :: "string \<rightharpoonup> DynamicConnectionLookup"
  configs :: "config_key \<rightharpoonup> ConnectionConfig"

text \<open>\<^verbatim>\<open>connectionName || DEFAULT_CONFIG\<close>: an empty name selects the default too.\<close>

definition connectionKey :: "string option \<Rightarrow> config_key" where
  "connectionKey connectionName =
     (case connectionName of
        None \<Rightarrow> DEFAULT_CONFIG
      | Some n \<Rightarrow> if n = [] then DEFAULT_CONFIG else Named n)"

definition show_name :: "string option \<Rightarrow> string" where
  "show_name connectionName = (case connectionName of None \<Rightarrow> ''undefined'' | Some n \<Rightarrow> n)"

text \<open>\<^verbatim>\<open>{ usePool: true, ...this.options }\<close>: a \<^verbatim>\<open>usePool\<close> of the options wins.\<close>

definition pooled_options :: "ConfigOptions \<Rightarrow> ConfigOptions" where
  "pooled_options opts =
     opts\<lparr>usePool := (case usePool opts of None \<Rightarrow> Some True | Some b \<Rightarrow> Some b)\<rparr>"

definition lookupConnection ::
  "environment \<Rightarrow> (config_key \<rightharpoonup> ConnectionConfig) \<Rightarrow> string option
     \<Rightarrow> DynamicConnectionLookup \<Rightarrow> runtime_state
     \<Rightarrow> (error + TestableConnection option) \<times> DynamicConnectionLookup \<times> runtime_state" where
  "lookupConnection env cfgmap connectionName lk w =
     (case connections lk (connectionKey connectionName) of
        Some p \<Rightarrow> (p, lk, w)
      | None \<Rightarrow>
          (case cfgmap (connectionKey connectionName) of
             Some connectionConfig \<Rightarrow>
               (let (p, w1) =
                      getConnectionForConfig env connectionConfig (pooled_options (options lk)) w
                in (p, lk\<lparr>connections := (connections lk)(connectionKey connectionName \<mapsto> p)\<rparr>, w1))
           | None \<Rightarrow>
               (Inl (Thrown (''No connection found with name '' @ show_name connectionName)),
                lk, w)))"

definition bigquery_default :: ConnectionConfig where
  "bigquery_default =
     \<lparr>name = ''bigquery'', backend = BigQuery, id' = ''bigquery-default'', isDefault = True,
      isGenerated = False, password = Missing, useKeychainPassword = None,
      projectName = None, serviceAccountKeyPath = None, location = None, username = None,
      host = None, port = None, databaseName = None, workingDirectory = None\<rparr>"

definition duckdb_default :: ConnectionConfig where
  "duckdb_default =
     \<lparr>name = ''duckdb'', backend = DuckDB, id' = ''duckdb-default'', isDefault = False,
      isGenerated = False, password = Missing, useKeychainPassword = None,
      projectName = None, serviceAccountKeyPath = None, location = None, username = None,
      host = None, port = None, databaseName = None, workingDirectory = None\<rparr>"

text \<open>
  \<^verbatim>\<open>buildConfigMap\<close>, in two parts. The first is the value of its local \<^verbatim>\<open>configs\<close> when the
  final \<^verbatim>\<open>forEach\<close> starts: an empty list is replaced by the BigQuery default, and a
  \<^verbatim>\<open>duckdb\<close> entry is pushed when \<^verbatim>\<open>find\<close> sees no entry of that name. (For a non-empty
  argument the push acts on the caller's array.) The second is the \<^verbatim>\<open>forEach\<close>, which
  writes into \<^verbatim>\<open>this.configs\<close> entry by entry, later entries overwriting earlier ones.
\<close>

definition resolved_configs :: "ConnectionConfig list \<Rightarrow> ConnectionConfig list" where
  "resolved_configs cfgs =
     (let c1 = (if length cfgs = 0 then [bigquery_default] else cfgs)
      in if find (\<lambda>config. name config = ''duckdb'') c1 = None
         then c1 @ [duckdb_default] else c1)"

definition store_config ::
  "(config_key \<rightharpoonup> ConnectionConfig) \<Rightarrow> ConnectionConfig \<Rightarrow> (config_key \<rightharpoonup> ConnectionConfig)" where
  "store_config m config =
     (if isDefault config then m(DEFAULT_CONFIG \<mapsto> config) else m)(Named (name config) \<mapsto> config)"

definition buildConfigMap :: "ConnectionConfig list \<Rightarrow> ConnectionManager \<Rightarrow> ConnectionManager" where
  "buildConfigMap cfgs m = m\<lparr>configs := foldl store_config (configs m) (resolved_configs cfgs)\<rparr>"

definition new_ConnectionManager :: "ConnectionConfig list \<Rightarrow> ConnectionManager" where
  "new_ConnectionManager cfgs =
     buildConfigMap cfgs \<lparr>connectionLookups = Map.empty, configs = Map.empty\<rparr>"

definition setConnectionsConfig ::
  "ConnectionConfig list \<Rightarrow> ConnectionManager \<times> runtime_state \<Rightarrow> ConnectionManager \<times> runtime_state" where
  "setConnectionsConfig connectionsConfig mw =
     (case mw of (m, w) \<Rightarrow>
        (buildConfigMap connectionsConfig (m\<lparr>connectionLookups := Map.empty\<rparr>),
         w\<lparr>ConnectionPool := empty_pool\<rparr>))"

text \<open>
  \<^verbatim>\<open>getConnectionLookup\<close>, from the working directory on (the directory of the URL's path,
  which the caller computes): the lookup of that directory, created on first use with the
  row limit of \<^verbatim>\<open>getCurrentRowLimit()\<close>, which is \<^verbatim>\<open>undefined\<close>.
\<close>

definition getConnectionLookup ::
  "string \<Rightarrow> ConnectionManager \<Rightarrow> DynamicConnectionLookup \<times> ConnectionManager" where
  "getConnectionLookup dir m =
     (case connectionLookups m dir of
        Some lk \<Rightarrow> (lk, m)
      | None \<Rightarrow>
          (let lk = \<lparr>connections = Map.empty,
                     options = \<lparr>workingDirectory' = dir, rowLimit = None, usePool = None\<rparr>\<rparr>
           in (lk, m\<lparr>connectionLookups := (connectionLookups m)(dir \<mapsto> lk)\<rparr>)))"

text \<open>
  A caller's \<^verbatim>\<open>getConnectionLookup(url).lookupConnection(name)\<close>. The lookup object is
  shared with the manager, so its updated cache is stored back under its directory.
\<close>

definition lookup_in ::
  "environment \<Rightarrow> string \<Rightarrow> string option \<Rightarrow> ConnectionManager \<times> runtime_state
     \<Rightarrow> (error + TestableConnection option) \<times> ConnectionManager \<times> runtime_state" where
  "lookup_in env dir connectionName mw =
     (case mw of (m, w) \<Rightarrow>
        (let (lk, m1) = getConnectionLookup dir m;
             (p, lk1, w1) = lookupConnection env (configs m1) connectionName lk w
         in (p, m1\<lparr>connectionLookups := (connectionLookups m1)(dir \<mapsto> lk1)\<rparr>, w1)))"

text \<open>
  A run of calls of \<^verbatim>\<open>getConnectionForConfig\<close>, each with its own configuration and
  options, results discarded: what may happen between two lookups.
\<close>

fun run_calls ::
  "environment \<Rightarrow> (ConnectionConfig \<times> ConfigOptions) list \<Rightarrow> runtime_state \<Rightarrow> runtime_state" where
  "run_calls env [] w = w"
| "run_calls env (c # cs) w = run_calls env cs (snd (getConnectionForConfig env (fst c) (snd c) w))"

text \<open>
  What holds of the pool at every moment: under the name of a member of
  \<^verbatim>\<open>Object.prototype\<close> a read yields that member, and every object found under another
  name was constructed earlier, so that its identity is below the count.
\<close>

definition pool_bounded :: "runtime_state \<Rightarrow> bool" where
  "pool_bounded w =
     (\<forall>n. if inherited n then ConnectionPool w n = Some (prototype_member n)
          else (\<forall>c. ConnectionPool w n = Some c \<longrightarrow> ref c < allocated w))"

text \<open>An environment with DuckDB available, and options that ask for pooling.\<close>

definition env_ok :: environment where
  "env_ok = \<lparr>isDuckDBAvailable = True, duckdbThrows = (\<lambda>n dir. False)\<rparr>"

definition pooling :: ConfigOptions where
  "pooling = \<lparr>workingDirectory' = ''/w'', rowLimit = None, usePool = Some True\<rparr>"

section \<open>Scrubbing passwords before the connections are saved\<close>

text \<open>
  \<^verbatim>\<open>handleConnectionsPreSave\<close> talks to the OS keychain through \<^verbatim>\<open>deletePassword\<close> and
  \<^verbatim>\<open>setPassword\<close>. The keychain is the list of the calls that succeeded on it, in order.
  Either call can reject; which calls do is a parameter, and a rejection ends the handler
  with that failure. \<^verbatim>\<open>getDefaultIndex\<close> is imported from the module of the configuration
  types and is a parameter as well; it returns an index or \<^verbatim>\<open>undefined\<close>.

  The handler updates the objects of the array it is given and returns either copies or
  those objects themselves. The elements of the array are distinct objects, so each is
  a value here and the returned list holds the values as they are when the handler ends.
\<close>

datatype keytar_call =
    DeletePassword string string
  | SetPassword string string string

definition service :: string where
  "service = ''com.malloy-lang.vscode-extension''"

definition account :: "ConnectionConfig \<Rightarrow> string" where
  "account connection = ''connections.'' @ id' connection @ ''.password''"

definition deletePassword ::
  "(keytar_call \<Rightarrow> bool) \<Rightarrow> string \<Rightarrow> string \<Rightarrow> keytar_call list \<Rightarrow> error + keytar_call list" where
  "deletePassword rejects srv acc kc =
     (if rejects (DeletePassword srv acc) then Inl (KeychainError acc)
      else Inr (kc @ [DeletePassword srv acc]))"

definition setPassword ::
  "(keytar_call \<Rightarrow> bool) \<Rightarrow> string \<Rightarrow> string \<Rightarrow> string \<Rightarrow> keytar_call list
     \<Rightarrow> error + keytar_call list" where
  "setPassword rejects srv acc pw kc =
     (if rejects (SetPassword srv acc pw) then Inl (KeychainError acc)
      else Inr (kc @ [SetPassword srv acc pw]))"

text \<open>\<^verbatim>\<open>if (connection.password)\<close>: the string, when the field holds a non-empty one.\<close>

definition truthy_password :: "string property \<Rightarrow> string option" where
  "truthy_password p = (case p of Value pw \<Rightarrow> if pw = [] then None else Some pw | _ \<Rightarrow> None)"

text \<open>
  The body of the \<^verbatim>\<open>for\<close> loop, from \<^verbatim>\<open>index\<close> on, with \<^verbatim>\<open>modifiedConnections\<close> and the
  keychain as they stand.
\<close>

fun presave_loop ::
  "(keytar_call \<Rightarrow> bool) \<Rightarrow> nat option \<Rightarrow> nat \<Rightarrow> ConnectionConfig list \<Rightarrow> ConnectionConfig list
     \<Rightarrow> keytar_call list \<Rightarrow> (error + ConnectionConfig list) \<times> keytar_call list" where
  "presave_loop rejects defaultIndex index [] modifiedConnections kc = (Inr modifiedConnections, kc)"
| "presave_loop rejects defaultIndex index (c # rest) modifiedConnections kc =
     (let connection = c\<lparr>isDefault := (Some index = defaultIndex)\<rparr> in
      if password connection \<noteq> Missing then
        (case (if useKeychainPassword connection = Some False
               then deletePassword rejects service (account connection) kc else Inr kc) of
           Inl e \<Rightarrow> (Inl e, kc)
         | Inr kc1 \<Rightarrow>
             (let connection1 =
                    (if useKeychainPassword connection = Some False
                     then connection\<lparr>useKeychainPassword := None\<rparr> else connection)
              in case truthy_password (password connection1) of
                   Some pw \<Rightarrow>
                     (case setPassword rejects service (account connection1) pw kc1 of
                        Inl e \<Rightarrow> (Inl e, kc1)
                      | Inr kc2 \<Rightarrow>
                          presave_loop rejects defaultIndex (Suc index) rest
                            (modifiedConnections @
                               [connection1\<lparr>password := Undefined, useKeychainPassword := Some True\<rparr>])
                            kc2)
                 | None \<Rightarrow>
                     presave_loop rejects defaultIndex (Suc index) rest modifiedConnections kc1))
      else if \<not> isGenerated connection then
        presave_loop rejects defaultIndex (Suc index) rest (modifiedConnections @ [connection]) kc
      else presave_loop rejects defaultIndex (Suc index) rest modifiedConnections kc)"

definition handleConnectionsPreSave ::
  "(ConnectionConfig list \<Rightarrow> nat option) \<Rightarrow> (keytar_call \<Rightarrow> bool) \<Rightarrow> ConnectionConfig list
     \<Rightarrow> keytar_call list \<Rightarrow> (error + ConnectionConfig list) \<times> keytar_call list" where
  "handleConnectionsPreSave getDefaultIndex rejects connections' kc =
     presave_loop rejects (getDefaultIndex connections') 0 connections' [] kc"

text \<open>
  What the handler is said to return for one connection at one index: the scrubbed copy
  when the password field holds a non-empty string; nothing when the field is there with
  an empty string or \<^verbatim>\<open>undefined\<close>; without the field, nothing for a generated connection
  and the connection itself otherwise. The default flag is set from the index in each
  returned entry.
\<close>

definition saved_form :: "nat option \<Rightarrow> nat \<times> ConnectionConfig \<Rightarrow> ConnectionConfig option" where
  "saved_form defaultIndex ic =
     (case ic of (i, c) \<Rightarrow>
        (case password c of
           Value pw \<Rightarrow>
             if pw = [] then None
             else Some (c\<lparr>isDefault := (Some i = defaultIndex), password := Undefined,
                          useKeychainPassword := Some True\<rparr>)
         | Undefined \<Rightarrow> None
         | Missing \<Rightarrow>
             if isGenerated c then None else Some (c\<lparr>isDefault := (Some i = defaultIndex)\<rparr>)))"

text \<open>The keychain calls the handler is said to make for one connection.\<close>

definition keychain_calls :: "ConnectionConfig \<Rightarrow> keytar_call list" where
  "keychain_calls c =
     (if password c = Missing then []
      else (if useKeychainPassword c = Some False then [DeletePassword service (account c)] else []) @
           (case truthy_password (password c) of
              Some pw \<Rightarrow> [SetPassword service (account c) pw]
            | None \<Rightarrow> []))"

section \<open>Model and query materializers\<close>

text \<open>
  \<^verbatim>\<open>Runtime\<close> and \<^verbatim>\<open>ModelMaterializer\<close> belong to the Malloy library. A materializer is the
  term of the library calls that produced it, with the arguments of each call. \<^verbatim>\<open>new URL\<close>
  throws on a string that is not a URL; which strings are URLs is a parameter.
  \<^verbatim>\<open>Date.now()\<close> is a parameter too. The \<^verbatim>\<open>console.debug\<close> lines are left out.
\<close>

datatype url = URL string

datatype refresh_flag = FlagBool bool | FlagNumber int

record load_options =
  importBaseURL :: "url option"
  refreshSchemaCache :: "refresh_flag option"

datatype ModelMaterializer =
    LoadModel url load_options
  | ExtendModel ModelMaterializer url load_options

record Cell =
  uri :: string
  languageId :: string

record CellData =
  baseUri :: string
  cells :: "Cell list"

definition truthy :: "refresh_flag option \<Rightarrow> bool" where
  "truthy r = (case r of None \<Rightarrow> False | Some (FlagBool b) \<Rightarrow> b | Some (FlagNumber n) \<Rightarrow> n \<noteq> 0)"

definition is_number :: "refresh_flag option \<Rightarrow> bool" where
  "is_number r = (case r of Some (FlagNumber n) \<Rightarrow> True | _ \<Rightarrow> False)"

text \<open>The \<^verbatim>\<open>for\<close> loop over the cells, with \<^verbatim>\<open>mm\<close> as it stands.\<close>

fun load_cells ::
  "(string \<Rightarrow> bool) \<Rightarrow> load_options \<Rightarrow> Cell list \<Rightarrow> ModelMaterializer option
     \<Rightarrow> error + ModelMaterializer option" where
  "load_cells is_url lo [] mm = Inr mm"
| "load_cells is_url lo (cell # rest) mm =
     (if languageId cell = ''malloy'' then
        (if \<not> is_url (uri cell) then Inl (InvalidURL (uri cell))
         else load_cells is_url lo rest
                (Some (case mm of
                         Some m \<Rightarrow> ExtendModel m (URL (uri cell)) lo
                       | None \<Rightarrow> LoadModel (URL (uri cell)) lo)))
      else load_cells is_url lo rest mm)"

definition createModelMaterializer ::
  "(string \<Rightarrow> bool) \<Rightarrow> int \<Rightarrow> string \<Rightarrow> CellData option \<Rightarrow> refresh_flag option
     \<Rightarrow> error + ModelMaterializer option" where
  "createModelMaterializer is_url now u cellData refresh =
     (if \<not> is_url u then Inl (InvalidURL u)
      else
        (case cellData of
           Some cd \<Rightarrow>
             (let refresh1 =
                    (if truthy refresh \<and> \<not> is_number refresh then Some (FlagNumber now)
                     else refresh)
              in if \<not> is_url (baseUri cd) then Inl (InvalidURL (baseUri cd))
                 else load_cells is_url
                        \<lparr>importBaseURL = Some (URL (baseUri cd)), refreshSchemaCache = refresh1\<rparr>
                        (cells cd) None)
         | None \<Rightarrow>
             Inr (Some (LoadModel (URL u)
                    \<lparr>importBaseURL = None, refreshSchemaCache = refresh\<rparr>))))"

text \<open>
  A query specification as it arrives: the \<^verbatim>\<open>type\<close> tag is a string, and the fields that a
  kind does not carry are \<^verbatim>\<open>undefined\<close>.
\<close>

record WorkerQuerySpec =
  q_type :: string
  q_uri :: string
  q_text :: "string option"
  q_name :: "string option"
  q_index :: "int option"

datatype Runnable =
    LoadQuery ModelMaterializer "string option"
  | LoadQueryByName ModelMaterializer "string option"
  | LoadFinalQuery ModelMaterializer
  | LoadQueryByIndex ModelMaterializer "int option"
  | LoadSQLBlockByName ModelMaterializer "string option"
  | LoadSQLBlockByIndex ModelMaterializer "int option"

definition createRunnable ::
  "(string \<Rightarrow> bool) \<Rightarrow> int \<Rightarrow> WorkerQuerySpec \<Rightarrow> CellData option \<Rightarrow> error + Runnable" where
  "createRunnable is_url now query cellData =
     (case createModelMaterializer is_url now (q_uri query) cellData None of
        Inl e \<Rightarrow> Inl e
      | Inr None \<Rightarrow> Inl (Error ''Missing model definition'')
      | Inr (Some mm) \<Rightarrow>
          if q_type query = ''string'' then Inr (LoadQuery mm (q_text query))
          else if q_type query = ''named'' then Inr (LoadQueryByName mm (q_name query))
          else if q_type query = ''file'' then
            (if q_index query = Some (- 1) then Inr (LoadFinalQuery mm)
             else Inr (LoadQueryByIndex mm (q_index query)))
          else if q_type query = ''named_sql'' then Inr (LoadSQLBlockByName mm (q_name query))
          else if q_type query = ''unnamed_sql'' then Inr (LoadSQLBlockByIndex mm (q_index query))
          else Inl (Error ''Internal Error: Unexpected query type''))"

text \<open>
  The model a notebook is said to produce: nothing when no cell is a \<^verbatim>\<open>malloy\<close> cell;
  otherwise the first such cell loads the model and each later one extends it, in order.
\<close>

definition is_malloy :: "Cell \<Rightarrow> bool" where
  "is_malloy cell = (languageId cell = ''malloy'')"

definition accumulated_model :: "load_options \<Rightarrow> Cell list \<Rightarrow> ModelMaterializer option" where
  "accumulated_model lo cs =
     (case filter is_malloy cs of
        [] \<Rightarrow> None
      | first # later \<Rightarrow>
          Some (foldl (\<lambda>m cell. ExtendModel m (URL (uri cell)) lo) (LoadModel (URL (uri first)) lo) later))"

text \<open>The options of every library call recorded in a materializer, oldest call first.\<close>

fun options_used :: "ModelMaterializer \<Rightarrow> load_options list" where
  "options_used (LoadModel u lo) = [lo]"
| "options_used (ExtendModel m u lo) = options_used m @ [lo]"

text \<open>The URLs of the calls recorded in a materializer, oldest call first.\<close>

fun urls_used :: "ModelMaterializer \<Rightarrow> url list" where
  "urls_used (LoadModel u lo) = [u]"
| "urls_used (ExtendModel m u lo) = urls_used m @ [u]"

text \<open>Every string the function hands to \<^verbatim>\<open>new URL\<close> is a URL.\<close>

definition urls_ok :: "(string \<Rightarrow> bool) \<Rightarrow> string \<Rightarrow> CellData option \<Rightarrow> bool" where
  "urls_ok is_url u cellData =
     (is_url u \<and>
      (case cellData of
         None \<Rightarrow> True
       | Some cd \<Rightarrow> is_url (baseUri cd) \<and> list_all (\<lambda>cell. is_url (uri cell)) (filter is_malloy (cells cd))))"

text \<open>The five type tags the \<^verbatim>\<open>switch\<close> of \<^verbatim>\<open>createRunnable\<close> has a case for.\<close>

definition recognized :: "string \<Rightarrow> bool" where
  "recognized t = (t \<in> set [''string'', ''named'', ''file'', ''named_sql'', ''unnamed_sql''])"

text \<open>A notebook of three cells, the second of which is not a \<^verbatim>\<open>malloy\<close> cell.\<close>

definition notebook :: CellData where
  "notebook =
     \<lparr>baseUri = ''file:///nb.malloynb'',
      cells = [\<lparr>uri = ''cell:/nb.malloynb#a'', languageId = ''malloy''\<rparr>,
               \<lparr>uri = ''cell:/nb.malloynb#b'', languageId = ''text''\<rparr>,
               \<lparr>uri = ''cell:/nb.malloynb#c'', languageId = ''malloy''\<rparr>]\<rparr>"

section \<open>Properties of the supervisor\<close>

lemma show_nat_small: "n < 10 \<Longrightarrow> show_nat n = [digit_char n]"
  by (simp add: show_nat.simps)

text \<open>
  C4. For every exit event: status 0 leaves the supervisor as it was (no restart is
  scheduled, nothing is logged); any other status logs the failure on the console and
  arms exactly one timer, of 5000 ms, whose callback is \<^verbatim>\<open>startWorker\<close>; the current
  child and the number of forks are untouched until that timer fires, and firing it forks
  exactly one new child.
\<close>

theorem exit_status_decides_restart:
  "on_exit (Some 0) s = s \<and>
   (status \<noteq> Some 0 \<longrightarrow>
      timers (on_exit status s) = timers s @ [(5000, StartWorker)] \<and>
      console (on_exit status s) = console s @
        [ConsoleError (''Worker exited with '' @ show_status status),
         ConsoleInfo ''Restarting in 5 seconds''] \<and>
      worker (on_exit status s) = worker s \<and>
      forked (on_exit status s) = forked s \<and>
      (timers s = [] \<longrightarrow>
         timers (fire_timer (on_exit status s)) = [] \<and>
         forked (fire_timer (on_exit status s)) = Suc (forked s) \<and>
         worker (fire_timer (on_exit status s)) = forked s))"
  by (simp add: on_exit_def fire_timer_def run_callback_def startWorker_def)

theorem exit_status_decides_restart_witness:
  "on_exit (Some 0) new_WorkerConnection = new_WorkerConnection \<and>
   timers (on_exit (Some 1) new_WorkerConnection) = [(5000, StartWorker)] \<and>
   console (on_exit (Some 1) new_WorkerConnection) =
     [ConsoleError ''Worker exited with 1'', ConsoleInfo ''Restarting in 5 seconds''] \<and>
   forked (fire_timer (on_exit (Some 1) new_WorkerConnection)) = 2 \<and>
   worker (fire_timer (on_exit (Some 1) new_WorkerConnection)) = 1"
  using exit_status_decides_restart [of new_WorkerConnection "Some 1"]
  by (simp add: new_WorkerConnection_def startWorker_def show_status_def show_int_def
      show_nat_small digit_char_def)

text \<open>
  C1, as stated, fails. The class keeps no record of \<^verbatim>\<open>stop()\<close> having been called, and
  the exit listener consults nothing but the status. On a fresh supervisor, \<^verbatim>\<open>stop()\<close>
  followed by an exit with status 1 arms the restart timer, and so does the exit with
  status \<^verbatim>\<open>null\<close> that the host reports for a child ended by the signal itself; when the
  timer fires a second child is forked.
\<close>

theorem stop_then_failing_exit_restarts:
  "signals (stop new_WorkerConnection) = [(0, ''SIGHUP'')] \<and>
   timers (stop new_WorkerConnection) = [] \<and>
   timers (on_exit (Some 1) (stop new_WorkerConnection)) = [(5000, StartWorker)] \<and>
   timers (on_exit None (stop new_WorkerConnection)) = [(5000, StartWorker)] \<and>
   forked (stop new_WorkerConnection) = 1 \<and>
   forked (fire_timer (on_exit (Some 1) (stop new_WorkerConnection))) = 2"
  by (simp add: stop_def on_exit_def new_WorkerConnection_def startWorker_def
      fire_timer_def run_callback_def)

text \<open>
  C1, amended. \<^verbatim>\<open>stop()\<close> itself schedules no restart: it sends SIGHUP to the current child
  and changes neither the pending timers, nor the console, nor the current child. It has
  no influence on how a later exit is handled: the listener does after \<^verbatim>\<open>stop()\<close> exactly
  what it does without it, so a later exit with status 0 schedules nothing, and a later
  exit with any other status schedules one restart in 5000 ms.
\<close>

theorem stop_only_signals:
  "signals (stop s) = signals s @ [(worker s, ''SIGHUP'')] \<and>
   timers (stop s) = timers s \<and>
   console (stop s) = console s \<and>
   worker (stop s) = worker s \<and>
   forked (stop s) = forked s \<and>
   on_exit status (stop s) = stop (on_exit status s) \<and>
   timers (on_exit status (stop s)) =
     (if status = Some 0 then timers s else timers s @ [(5000, StartWorker)])"
  by (simp add: stop_def on_exit_def)

section \<open>Properties of configuration resolution\<close>

lemma find_append_option:
  "find P (xs @ ys) = (case find P xs of None \<Rightarrow> find P ys | Some x \<Rightarrow> Some x)"
  by (induction xs) auto

lemma foldl_store_default:
  "foldl store_config m xs DEFAULT_CONFIG =
     (case find isDefault (rev xs) of None \<Rightarrow> m DEFAULT_CONFIG | Some d \<Rightarrow> Some d)"
  by (induction xs arbitrary: m rule: rev_induct)
    (auto simp: store_config_def find_append_option split: option.splits)

lemma configs_new_default:
  "configs (new_ConnectionManager cfgs) DEFAULT_CONFIG = find isDefault (rev (resolved_configs cfgs))"
  by (simp add: new_ConnectionManager_def buildConfigMap_def foldl_store_default split: option.splits)

lemma lookup_in_fresh_manager:
  "fst (lookup_in env dir connectionName (new_ConnectionManager cfgs, w)) =
     (case configs (new_ConnectionManager cfgs) (connectionKey connectionName) of
        None \<Rightarrow> Inl (Thrown (''No connection found with name '' @ show_name connectionName))
      | Some d \<Rightarrow> fst (getConnectionForConfig env d
                        \<lparr>workingDirectory' = dir, rowLimit = None, usePool = Some True\<rparr> w))"
proof -
  let ?m = "new_ConnectionManager cfgs"
  let ?lk = "\<lparr>connections = Map.empty,
              options = \<lparr>workingDirectory' = dir, rowLimit = None, usePool = None\<rparr>\<rparr>"
  have none: "connectionLookups ?m dir = None"
    by (simp add: new_ConnectionManager_def buildConfigMap_def)
  have gl: "getConnectionLookup dir ?m =
              (?lk, ?m\<lparr>connectionLookups := (connectionLookups ?m)(dir \<mapsto> ?lk)\<rparr>)"
    by (simp add: getConnectionLookup_def none Let_def)
  have po: "pooled_options \<lparr>workingDirectory' = dir, rowLimit = None, usePool = None\<rparr> =
            \<lparr>workingDirectory' = dir, rowLimit = None, usePool = Some True\<rparr>"
    by (simp add: pooled_options_def)
  show ?thesis
    by (auto simp: lookup_in_def gl lookupConnection_def po split: option.splits prod.splits)
qed

lemmas get_eval = getConnectionForConfig_def construct_def pool_put_def Let_def or_else_def
  fresh_state_def env_ok_def pooling_def bigquery_default_def duckdb_default_def
  empty_pool_def inherited_def object_prototype_members_def

text \<open>
  C5. For the empty list the resolved configurations are exactly the synthesized BigQuery
  entry, which is the default, followed by the synthesized \<^verbatim>\<open>duckdb\<close> entry, which is not;
  the manager built from the empty list maps the default key and the name \<^verbatim>\<open>bigquery\<close> to
  the first and the name \<^verbatim>\<open>duckdb\<close> to the second, and nothing else. For a list with no
  entry named \<^verbatim>\<open>duckdb\<close> the result is that list, in its order, with the synthesized
  \<^verbatim>\<open>duckdb\<close> entry appended last, and it has exactly one entry of that name; the list
  meant is the given one when it is not empty, and otherwise the one-entry list of the
  first sentence.
\<close>

theorem resolved_configs_appends_duckdb:
  "resolved_configs [] = [bigquery_default, duckdb_default] \<and>
   name bigquery_default = ''bigquery'' \<and> backend bigquery_default = BigQuery \<and>
   isDefault bigquery_default \<and>
   name duckdb_default = ''duckdb'' \<and> backend duckdb_default = DuckDB \<and>
   \<not> isDefault duckdb_default \<and>
   configs (new_ConnectionManager []) =
     [DEFAULT_CONFIG \<mapsto> bigquery_default, Named ''bigquery'' \<mapsto> bigquery_default,
      Named ''duckdb'' \<mapsto> duckdb_default] \<and>
   (''duckdb'' \<notin> set (map name cfgs) \<longrightarrow>
      resolved_configs cfgs = (if cfgs = [] then [bigquery_default] else cfgs) @ [duckdb_default] \<and>
      length (filter (\<lambda>config. name config = ''duckdb'') (resolved_configs cfgs)) = 1)"
proof -
  have m: "configs (new_ConnectionManager []) =
     [DEFAULT_CONFIG \<mapsto> bigquery_default, Named ''bigquery'' \<mapsto> bigquery_default,
      Named ''duckdb'' \<mapsto> duckdb_default]"
    by (simp add: new_ConnectionManager_def buildConfigMap_def resolved_configs_def
        store_config_def bigquery_default_def duckdb_default_def)
  have l: "resolved_configs cfgs = (if cfgs = [] then [bigquery_default] else cfgs) @ [duckdb_default] \<and>
      length (filter (\<lambda>config. name config = ''duckdb'') (resolved_configs cfgs)) = 1"
    if "''duckdb'' \<notin> set (map name cfgs)"
  proof -
    from that have none: "name config \<noteq> ''duckdb''" if "config \<in> set cfgs" for config
      using that by (metis image_eqI set_map)
    then have "find (\<lambda>config. name config = ''duckdb'') cfgs = None"
      by (simp add: find_None_iff)
    moreover from none have "filter (\<lambda>config. name config = ''duckdb'') cfgs = []"
      by (simp add: filter_empty_conv)
    ultimately show ?thesis
      by (simp add: resolved_configs_def bigquery_default_def duckdb_default_def)
  qed
  have e: "resolved_configs [] = [bigquery_default, duckdb_default]"
    by (simp add: resolved_configs_def bigquery_default_def duckdb_default_def)
  have b: "name bigquery_default = ''bigquery'' \<and> backend bigquery_default = BigQuery \<and>
           isDefault bigquery_default"
    by (simp add: bigquery_default_def)
  have d: "name duckdb_default = ''duckdb'' \<and> backend duckdb_default = DuckDB \<and>
           \<not> isDefault duckdb_default"
    by (simp add: duckdb_default_def)
  show ?thesis
    using e b d m l by blast
qed

theorem resolved_configs_appends_duckdb_witness:
  "resolved_configs [bigquery_default\<lparr>name := ''pg'', backend := Postgres\<rparr>] =
     [bigquery_default\<lparr>name := ''pg'', backend := Postgres\<rparr>, duckdb_default] \<and>
   resolved_configs [] = [bigquery_default, duckdb_default]"
  using resolved_configs_appends_duckdb [of "[bigquery_default\<lparr>name := ''pg'', backend := Postgres\<rparr>]"]
  by (simp add: bigquery_default_def)

text \<open>
  C2, as stated, fails. \<^verbatim>\<open>buildConfigMap\<close> assigns the default key anew at every entry
  whose flag is set, so with two flagged entries the second one is the default. A lookup
  without a name on a manager built from two flagged BigQuery entries constructs the
  connection of the second.
\<close>

theorem two_defaults_last_wins:
  "find isDefault [bigquery_default, bigquery_default\<lparr>name := ''second''\<rparr>] = Some bigquery_default \<and>
   configs (new_ConnectionManager [bigquery_default, bigquery_default\<lparr>name := ''second''\<rparr>])
       DEFAULT_CONFIG =
     Some (bigquery_default\<lparr>name := ''second''\<rparr>) \<and>
   fst (lookup_in env_ok ''/w'' None
          (new_ConnectionManager [bigquery_default, bigquery_default\<lparr>name := ''second''\<rparr>],
           fresh_state)) =
     Inr (Some \<lparr>ref = 0, made = BigQueryConnection ''second'' None None None None\<rparr>)"
proof -
  let ?cfgs = "[bigquery_default, bigquery_default\<lparr>name := ''second''\<rparr>]"
  have c: "configs (new_ConnectionManager ?cfgs) DEFAULT_CONFIG =
             Some (bigquery_default\<lparr>name := ''second''\<rparr>)"
    by (simp add: new_ConnectionManager_def buildConfigMap_def resolved_configs_def
        store_config_def bigquery_default_def duckdb_default_def)
  show ?thesis
    by (simp add: lookup_in_fresh_manager [of env_ok "''/w''" None ?cfgs fresh_state]
        connectionKey_def c) (simp add: get_eval)
qed

text \<open>
  C2, amended. On a manager constructed from a configuration list, the default key holds
  the last entry of the resolved list whose default flag is set. A lookup that omits the
  name, made through a lookup object of that manager that has not resolved the default
  before, returns what \<^verbatim>\<open>getConnectionForConfig\<close> returns for that entry with pooling on,
  and fails with the message for a missing connection when no entry is flagged.
\<close>

theorem default_is_last_flagged:
  "configs (new_ConnectionManager cfgs) DEFAULT_CONFIG = find isDefault (rev (resolved_configs cfgs)) \<and>
   fst (lookup_in env dir None (new_ConnectionManager cfgs, w)) =
     (case find isDefault (rev (resolved_configs cfgs)) of
        None \<Rightarrow> Inl (Thrown ''No connection found with name undefined'')
      | Some d \<Rightarrow> fst (getConnectionForConfig env d
                        \<lparr>workingDirectory' = dir, rowLimit = None, usePool = Some True\<rparr> w))"
  by (simp add: lookup_in_fresh_manager configs_new_default connectionKey_def show_name_def
      split: option.splits)

theorem default_is_last_flagged_witness:
  "configs (new_ConnectionManager []) DEFAULT_CONFIG = Some bigquery_default \<and>
   fst (lookup_in env_ok ''/w'' None (new_ConnectionManager [], fresh_state)) =
     Inr (Some \<lparr>ref = 0, made = BigQueryConnection ''bigquery'' None None None None\<rparr>)"
  using default_is_last_flagged [of "[]" env_ok "''/w''" fresh_state]
  by (simp add: resolved_configs_def get_eval)

section \<open>Properties of the connection pool\<close>

lemma inherited_read:
  assumes "pool_bounded w" and "inherited n"
  shows "ConnectionPool w n = Some (prototype_member n)"
proof -
  from assms(1)
  have "if inherited n then ConnectionPool w n = Some (prototype_member n)
        else (\<forall>c. ConnectionPool w n = Some c \<longrightarrow> ref c < allocated w)"
    unfolding pool_bounded_def by (rule spec)
  with assms(2) show ?thesis by simp
qed

lemma ordinary_read:
  assumes "pool_bounded w" and "\<not> inherited n" and "ConnectionPool w n = Some c"
  shows "ref c < allocated w"
proof -
  from assms(1)
  have "if inherited n then ConnectionPool w n = Some (prototype_member n)
        else (\<forall>c. ConnectionPool w n = Some c \<longrightarrow> ref c < allocated w)"
    unfolding pool_bounded_def by (rule spec)
  with assms(2,3) show ?thesis by simp
qed

lemma get_keeps_pool:
  "ConnectionPool w n = Some c \<Longrightarrow>
   ConnectionPool (snd (getConnectionForConfig env cfg opts w)) n = Some c"
  by (auto simp: getConnectionForConfig_def construct_def pool_put_def Let_def
      split: ConnectionBackend.splits)

lemma get_pool_elsewhere:
  "n \<noteq> name cfg \<Longrightarrow>
   ConnectionPool (snd (getConnectionForConfig env cfg opts w)) n = ConnectionPool w n"
  by (auto simp: getConnectionForConfig_def construct_def pool_put_def Let_def
      split: ConnectionBackend.splits)

lemma get_pool_here:
  "ConnectionPool (snd (getConnectionForConfig env cfg opts w)) (name cfg) = Some c \<Longrightarrow>
   ConnectionPool w (name cfg) = Some c \<or> (ConnectionPool w (name cfg) = None \<and> ref c = allocated w)"
  by (auto simp: getConnectionForConfig_def construct_def pool_put_def Let_def
      split: ConnectionBackend.splits if_splits)

lemma get_allocated_mono:
  "allocated w \<le> allocated (snd (getConnectionForConfig env cfg opts w))"
  by (auto simp: getConnectionForConfig_def construct_def pool_put_def Let_def
      split: ConnectionBackend.splits)

text \<open>\<open>pool_bounded\<close> holds initially and is kept by every operation on the pool.\<close>

lemma fresh_state_bounded: "pool_bounded fresh_state"
  by (simp add: pool_bounded_def fresh_state_def empty_pool_def)

lemma get_bounded:
  assumes "pool_bounded w"
  shows "pool_bounded (snd (getConnectionForConfig env cfg opts w))"
proof -
  let ?w' = "snd (getConnectionForConfig env cfg opts w)"
  have mono: "allocated w \<le> allocated ?w'"
    by (rule get_allocated_mono)
  have member: "ConnectionPool ?w' n = Some (prototype_member n)" if "inherited n" for n
    using inherited_read [OF assms that] by (rule get_keeps_pool)
  have below: "ref c < allocated ?w'" if n: "\<not> inherited n" and c: "ConnectionPool ?w' n = Some c" for n c
  proof (cases "n = name cfg")
    case True
    with c have "ConnectionPool ?w' (name cfg) = Some c"
      by simp
    from get_pool_here [OF this]
    show ?thesis
    proof
      assume "ConnectionPool w (name cfg) = Some c"
      with ordinary_read [OF assms n] True mono show ?thesis
        by fastforce
    next
      assume new: "ConnectionPool w (name cfg) = None \<and> ref c = allocated w"
      with c True have "ConnectionPool ?w' (name cfg) \<noteq> ConnectionPool w (name cfg)"
        by simp
      then have "allocated ?w' = Suc (allocated w)"
        by (auto simp: getConnectionForConfig_def construct_def pool_put_def Let_def
            split: ConnectionBackend.splits if_splits)
      with new show ?thesis
        by simp
    qed
  next
    case False
    with c have "ConnectionPool w n = Some c"
      by (simp add: get_pool_elsewhere)
    from ordinary_read [OF assms n this] mono show ?thesis
      by simp
  qed
  show ?thesis
    unfolding pool_bounded_def using member below by auto
qed

lemma run_calls_bounded:
  "pool_bounded w \<Longrightarrow> pool_bounded (run_calls env calls w)"
  by (induction calls arbitrary: w) (auto simp: get_bounded)

lemma reset_bounded:
  "pool_bounded (snd (setConnectionsConfig newcfgs (m, w)))"
  by (simp add: setConnectionsConfig_def pool_bounded_def empty_pool_def)

lemma run_calls_keeps_pool:
  "ConnectionPool w n = Some c \<Longrightarrow> ConnectionPool (run_calls env calls w) n = Some c"
  by (induction calls arbitrary: w) (auto simp: get_keeps_pool)

lemma run_calls_allocated_mono:
  "allocated w \<le> allocated (run_calls env calls w)"
proof (induction calls arbitrary: w)
  case Nil
  show ?case by simp
next
  case (Cons c cs)
  have "allocated w \<le> allocated (snd (getConnectionForConfig env (fst c) (snd c) w))"
    by (rule get_allocated_mono)
  also have "\<dots> \<le> allocated (run_calls env cs (snd (getConnectionForConfig env (fst c) (snd c) w)))"
    by (rule Cons.IH)
  finally show ?case by simp
qed

lemma get_pooled_first:
  assumes "backend cfg = BigQuery \<or> backend cfg = Postgres"
    and "usePool opts = Some True" and "pool_bounded w" and "\<not> inherited (name cfg)"
  shows "\<exists>c. getConnectionForConfig env cfg opts w =
                (Inr (Some c), snd (getConnectionForConfig env cfg opts w)) \<and>
             ConnectionPool (snd (getConnectionForConfig env cfg opts w)) (name cfg) = Some c \<and>
             ref c < allocated (snd (getConnectionForConfig env cfg opts w))"
proof (cases "ConnectionPool w (name cfg)")
  case None
  with assms(1,2) show ?thesis
    by (auto simp: getConnectionForConfig_def construct_def pool_put_def Let_def)
next
  case (Some c)
  from ordinary_read [OF assms(3,4) Some] Some assms(2) show ?thesis
    by (simp add: getConnectionForConfig_def)
qed

lemma get_pooled_hit:
  assumes "ConnectionPool w (name cfg) = Some c" and "usePool opts = Some True"
  shows "getConnectionForConfig env cfg opts w = (Inr (Some c), w)"
  using assms by (simp add: getConnectionForConfig_def)

lemma get_from_empty_pool_is_new:
  assumes "ConnectionPool w = empty_pool" and "\<not> inherited (name cfg)"
    and "getConnectionForConfig env cfg opts w = (Inr (Some c), w')"
  shows "ref c = allocated w"
  using assms
  by (auto simp: getConnectionForConfig_def construct_def pool_put_def Let_def empty_pool_def
      split: ConnectionBackend.splits if_splits)

lemma reset_pool_empty:
  "setConnectionsConfig newcfgs (m, w) = (m', w') \<Longrightarrow>
   ConnectionPool w' = empty_pool \<and> allocated w' = allocated w \<and> connectionLookups m' = Map.empty"
  by (auto simp: setConnectionsConfig_def buildConfigMap_def)

text \<open>
  C3, as stated, fails for the DuckDB backend. The DuckDB branch never stores the object it
  constructs, so two successive calls with pooling on, for the same name, return two
  objects, and the pool stays as it was.
\<close>

theorem duckdb_is_not_pooled:
  "getConnectionForConfig env_ok duckdb_default pooling fresh_state =
     (Inr (Some \<lparr>ref = 0, made = DuckDBConnection ''duckdb'' '':memory:'' ''/w''\<rparr>),
      fresh_state\<lparr>allocated := 1\<rparr>) \<and>
   getConnectionForConfig env_ok duckdb_default pooling (fresh_state\<lparr>allocated := 1\<rparr>) =
     (Inr (Some \<lparr>ref = 1, made = DuckDBConnection ''duckdb'' '':memory:'' ''/w''\<rparr>),
      fresh_state\<lparr>allocated := 2\<rparr>) \<and>
   ConnectionPool (fresh_state\<lparr>allocated := 2\<rparr>) ''duckdb'' = None"
  by (simp add: get_eval)

text \<open>
  C3, amended to the BigQuery and Postgres backends and to the names that are not names
  of members of \<^verbatim>\<open>Object.prototype\<close>. For such a name, once a call with pooling on has
  returned the object for the name, every later call with pooling on for that name returns
  the identical object, whatever calls of \<^verbatim>\<open>getConnectionForConfig\<close> come in between, and
  the pool holds that object under the name. \<^verbatim>\<open>setConnectionsConfig\<close> replaces the pool by
  an empty one; any object a call for the name returns right after it is a different one,
  and for a BigQuery or Postgres configuration of that name such an object is returned,
  newly constructed. A call for a DuckDB configuration never changes the pool. Under the
  name of a member of \<^verbatim>\<open>Object.prototype\<close> a call with pooling on returns that inherited
  member and constructs nothing, before \<^verbatim>\<open>setConnectionsConfig\<close> and after it.
\<close>

theorem pooled_lookup_reuses_object:
  assumes bounded: "pool_bounded w"
    and kind: "backend cfg = BigQuery \<or> backend cfg = Postgres"
    and ordinary: "\<not> inherited (name cfg)"
    and pooled: "usePool opts = Some True" "usePool opts' = Some True"
    and same: "name cfg' = name cfg" "name cfg'' = name cfg"
    and first: "getConnectionForConfig env cfg opts w = (r1, w1)"
    and later: "getConnectionForConfig env cfg' opts' (run_calls env calls w1) = (r2, w2)"
    and reset: "setConnectionsConfig newcfgs (m, w2) = (m', w3)"
    and after: "getConnectionForConfig env cfg'' opts'' w3 = (r3, w4)"
  shows "(\<exists>c. r1 = Inr (Some c) \<and> r2 = Inr (Some c) \<and>
             ConnectionPool w2 (name cfg) = Some c \<and>
             ConnectionPool w3 = empty_pool \<and>
             (\<forall>c'. r3 = Inr (Some c') \<longrightarrow> ref c' \<noteq> ref c) \<and>
             (backend cfg'' = BigQuery \<or> backend cfg'' = Postgres \<longrightarrow>
                (\<exists>c'. r3 = Inr (Some c') \<and> ref c' = allocated w2))) \<and>
         (\<forall>duck duck_opts duck_w. backend duck = DuckDB \<longrightarrow>
            ConnectionPool (snd (getConnectionForConfig env duck duck_opts duck_w)) =
              ConnectionPool duck_w) \<and>
         (\<forall>odd odd_opts. inherited (name odd) \<and> usePool odd_opts = Some True \<longrightarrow>
            getConnectionForConfig env odd odd_opts w = (Inr (Some (prototype_member (name odd))), w) \<and>
            getConnectionForConfig env odd odd_opts w3 = (Inr (Some (prototype_member (name odd))), w3))"
proof -
  have duck: "ConnectionPool (snd (getConnectionForConfig env duck duck_opts duck_w)) = ConnectionPool duck_w"
    if "backend duck = DuckDB" for duck duck_opts duck_w
    using that by (simp add: getConnectionForConfig_def construct_def Let_def split: prod.splits)
  from get_pooled_first [OF kind pooled(1) bounded ordinary, of env] first
  obtain c where r1: "r1 = Inr (Some c)"
    and in_pool: "ConnectionPool w1 (name cfg) = Some c"
    and below: "ref c < allocated w1"
    by auto
  let ?v = "run_calls env calls w1"
  have pool_v: "ConnectionPool ?v (name cfg') = Some c"
    using in_pool same(1) by (simp add: run_calls_keeps_pool)
  have hit: "getConnectionForConfig env cfg' opts' ?v = (Inr (Some c), ?v)"
    using pool_v pooled(2) by (rule get_pooled_hit)
  with later have r2: "r2 = Inr (Some c)" and w2: "w2 = ?v"
    by simp_all
  have "allocated w1 \<le> allocated w2"
    unfolding w2 by (rule run_calls_allocated_mono)
  with below have below2: "ref c < allocated w2"
    by simp
  from reset_pool_empty [OF reset]
  have empty3: "ConnectionPool w3 = empty_pool" and alloc3: "allocated w3 = allocated w2"
    by simp_all
  from ordinary same(2) have ordinary'': "\<not> inherited (name cfg'')"
    by simp
  have distinct: "ref c' \<noteq> ref c" if "r3 = Inr (Some c')" for c'
  proof -
    from that after have "getConnectionForConfig env cfg'' opts'' w3 = (Inr (Some c'), w4)"
      by simp
    from get_from_empty_pool_is_new [OF empty3 ordinary'' this] alloc3 below2
    show ?thesis by simp
  qed
  have again: "\<exists>c'. r3 = Inr (Some c') \<and> ref c' = allocated w2"
    if "backend cfg'' = BigQuery \<or> backend cfg'' = Postgres"
    using that after empty3 alloc3 ordinary''
    by (auto simp: getConnectionForConfig_def construct_def Let_def empty_pool_def)
  have main: "\<exists>c. r1 = Inr (Some c) \<and> r2 = Inr (Some c) \<and>
             ConnectionPool w2 (name cfg) = Some c \<and>
             ConnectionPool w3 = empty_pool \<and>
             (\<forall>c'. r3 = Inr (Some c') \<longrightarrow> ref c' \<noteq> ref c) \<and>
             (backend cfg'' = BigQuery \<or> backend cfg'' = Postgres \<longrightarrow>
                (\<exists>c'. r3 = Inr (Some c') \<and> ref c' = allocated w2))"
    using r1 r2 pool_v same(1) w2 empty3 distinct again by auto
  have odd: "getConnectionForConfig env odd odd_opts w = (Inr (Some (prototype_member (name odd))), w) \<and>
      getConnectionForConfig env odd odd_opts w3 = (Inr (Some (prototype_member (name odd))), w3)"
    if "inherited (name odd) \<and> usePool odd_opts = Some True" for odd odd_opts
  proof -
    from that have i: "inherited (name odd)" and p: "usePool odd_opts = Some True"
      by simp_all
    have "ConnectionPool w (name odd) = Some (prototype_member (name odd))"
      using bounded i by (rule inherited_read)
    moreover have "ConnectionPool w3 (name odd) = Some (prototype_member (name odd))"
      using i by (simp add: empty3 empty_pool_def)
    ultimately show ?thesis
      using p by (simp add: get_pooled_hit)
  qed
  from main duck odd show ?thesis
    by blast
qed

theorem pooled_lookup_reuses_object_witness:
  "pool_bounded fresh_state \<and> \<not> inherited ''bigquery'' \<and> inherited ''toString'' \<and>
   fst (getConnectionForConfig env_ok bigquery_default pooling fresh_state) =
     Inr (Some \<lparr>ref = 0, made = BigQueryConnection ''bigquery'' None None None None\<rparr>) \<and>
   fst (getConnectionForConfig env_ok bigquery_default pooling
          (run_calls env_ok [(duckdb_default, pooling), (bigquery_default, default_options)]
             (snd (getConnectionForConfig env_ok bigquery_default pooling fresh_state)))) =
     Inr (Some \<lparr>ref = 0, made = BigQueryConnection ''bigquery'' None None None None\<rparr>) \<and>
   fst (getConnectionForConfig env_ok bigquery_default pooling
          (snd (setConnectionsConfig [] (new_ConnectionManager [],
             snd (getConnectionForConfig env_ok bigquery_default pooling
          (run_calls env_ok [(duckdb_default, pooling), (bigquery_default, default_options)]
             (snd (getConnectionForConfig env_ok bigquery_default pooling fresh_state)))))))) =
     Inr (Some \<lparr>ref = 3, made = BigQueryConnection ''bigquery'' None None None None\<rparr>) \<and>
   getConnectionForConfig env_ok (bigquery_default\<lparr>name := ''toString''\<rparr>) pooling fresh_state =
     (Inr (Some \<lparr>ref = 0, made = PrototypeMember ''toString''\<rparr>), fresh_state)"
proof -
  note b = fresh_state_bounded
  have k: "backend bigquery_default = BigQuery \<or> backend bigquery_default = Postgres"
    by (simp add: bigquery_default_def)
  have o: "\<not> inherited (name bigquery_default)"
    by (simp add: bigquery_default_def inherited_def object_prototype_members_def)
  have p: "usePool pooling = Some True"
    by (simp add: pooling_def)
  show ?thesis
    using b pooled_lookup_reuses_object [where env = env_ok and cfg' = bigquery_default
        and calls = "[(duckdb_default, pooling), (bigquery_default, default_options)]"
        and newcfgs = "[]" and m = "new_ConnectionManager []"
        and cfg'' = bigquery_default and opts'' = pooling,
        OF b k o p p refl refl surjective_pairing surjective_pairing
        surjective_pairing surjective_pairing]
    by (simp add: get_eval default_options_def setConnectionsConfig_def prototype_member_def)
qed



section \<open>Properties of the materializers\<close>

lemma load_cells_all_urls:
  assumes "list_all (\<lambda>cell. is_url (uri cell)) (filter is_malloy cs)"
  shows "load_cells is_url lo cs mm =
           Inr (case mm of
                  None \<Rightarrow> accumulated_model lo cs
                | Some m \<Rightarrow>
                    Some (foldl (\<lambda>m cell. ExtendModel m (URL (uri cell)) lo) m (filter is_malloy cs)))"
  using assms
proof (induction cs arbitrary: mm)
  case Nil
  show ?case by (simp add: accumulated_model_def split: option.splits)
next
  case (Cons cell rest)
  show ?case
  proof (cases "is_malloy cell")
    case True
    with Cons.prems have u: "is_url (uri cell)"
      and r: "list_all (\<lambda>cell. is_url (uri cell)) (filter is_malloy rest)"
      by simp_all
    from True have l: "languageId cell = ''malloy''"
      by (simp add: is_malloy_def)
    show ?thesis
      using True l u Cons.IH [OF r]
      by (simp add: accumulated_model_def split: option.splits)
  next
    case False
    with Cons.prems have r: "list_all (\<lambda>cell. is_url (uri cell)) (filter is_malloy rest)"
      by simp
    from False have l: "languageId cell \<noteq> ''malloy''"
      by (simp add: is_malloy_def)
    show ?thesis
      using False l Cons.IH [OF r, of mm]
      by (simp add: accumulated_model_def split: option.splits)
  qed
qed

lemma urls_used_foldl:
  "urls_used (foldl (\<lambda>m cell. ExtendModel m (URL (uri cell)) lo) m cs) =
     urls_used m @ map (\<lambda>cell. URL (uri cell)) cs"
  by (induction cs rule: rev_induct) auto

lemma options_used_foldl:
  "set (options_used (foldl (\<lambda>m cell. ExtendModel m (URL (uri cell)) lo) m cs)) \<subseteq>
     set (options_used m) \<union> {lo}"
  by (induction cs rule: rev_induct) auto

lemma accumulated_model_urls:
  "accumulated_model lo cs = Some mm \<Longrightarrow>
   urls_used mm = map (\<lambda>cell. URL (uri cell)) (filter is_malloy cs)"
  by (auto simp: accumulated_model_def urls_used_foldl split: list.splits)

lemma accumulated_model_options:
  "accumulated_model lo cs = Some mm \<Longrightarrow> lo' \<in> set (options_used mm) \<Longrightarrow> lo' = lo"
  using options_used_foldl [of lo _ _]
  by (fastforce simp: accumulated_model_def split: list.splits)

lemma normalise_flag:
  "(if truthy refresh \<and> \<not> is_number refresh then Some (FlagNumber now) else refresh) =
   (if refresh = Some (FlagBool True) then Some (FlagNumber now) else refresh)"
  by (auto simp: truthy_def is_number_def split: option.splits refresh_flag.splits)

lemma create_with_cells:
  assumes "urls_ok is_url u (Some cd)"
  shows "createModelMaterializer is_url now u (Some cd) refresh =
           Inr (accumulated_model
                  \<lparr>importBaseURL = Some (URL (baseUri cd)),
                   refreshSchemaCache =
                     (if refresh = Some (FlagBool True) then Some (FlagNumber now) else refresh)\<rparr>
                  (cells cd))"
proof -
  from assms have a: "is_url u" and b: "is_url (baseUri cd)"
    and c: "list_all (\<lambda>cell. is_url (uri cell)) (filter is_malloy (cells cd))"
    by (simp_all add: urls_ok_def)
  show ?thesis
    using a b load_cells_all_urls [OF c, of _ None]
    by (simp add: createModelMaterializer_def Let_def normalise_flag cong: if_cong)
qed

lemma create_without_cells:
  assumes "urls_ok is_url u None"
  shows "createModelMaterializer is_url now u None refresh =
           Inr (Some (LoadModel (URL u) \<lparr>importBaseURL = None, refreshSchemaCache = refresh\<rparr>))"
  using assms by (simp add: createModelMaterializer_def urls_ok_def)

lemma create_never_fails_on_urls:
  assumes "urls_ok is_url u cellData"
  shows "\<exists>r. createModelMaterializer is_url now u cellData refresh = Inr r"
proof (cases cellData)
  case None
  with assms show ?thesis by (simp add: create_without_cells)
next
  case (Some cd)
  with assms have "urls_ok is_url u (Some cd)" by simp
  from create_with_cells [OF this, of now refresh] Some show ?thesis by simp
qed

lemma create_none_iff:
  assumes "urls_ok is_url u cellData"
  shows "createModelMaterializer is_url now u cellData refresh = Inr None \<longleftrightarrow>
         (\<exists>cd. cellData = Some cd \<and> filter is_malloy (cells cd) = [])"
proof (cases cellData)
  case None
  with assms show ?thesis by (simp add: create_without_cells)
next
  case (Some cd)
  with assms have "urls_ok is_url u (Some cd)" by simp
  from create_with_cells [OF this, of now refresh] Some show ?thesis
    by (simp add: accumulated_model_def split: list.splits)
qed

text \<open>A document URI that is not a URL makes both functions fail with the library's error.\<close>

lemma create_invalid_uri:
  "\<not> is_url u \<Longrightarrow> createModelMaterializer is_url now u cellData refresh = Inl (InvalidURL u)"
  by (simp add: createModelMaterializer_def)

lemma createRunnable_invalid_uri:
  "\<not> is_url (q_uri query) \<Longrightarrow>
   createRunnable is_url now query cellData = Inl (InvalidURL (q_uri query))"
  by (simp add: createRunnable_def create_invalid_uri)

lemmas materializer_eval = createModelMaterializer_def createRunnable_def urls_ok_def notebook_def
  is_malloy_def truthy_def is_number_def Let_def

text \<open>
  C7. With cell data, and every string given to \<^verbatim>\<open>new URL\<close> a URL, the result is the one
  model accumulated over the \<^verbatim>\<open>malloy\<close> cells in their order: the first loaded, each later
  one extending what came before, all with the same options; the URLs of the calls that
  built it are exactly those of the \<^verbatim>\<open>malloy\<close> cells, in order; there is no model exactly
  when there is no such cell. Three cells of which only the first and the third are
  \<^verbatim>\<open>malloy\<close> cells give the model loaded from the first and extended with the third.
\<close>

theorem cells_accumulate_one_model:
  assumes "urls_ok is_url u (Some cd)"
  shows "createModelMaterializer is_url now u (Some cd) refresh =
           Inr (accumulated_model
                  \<lparr>importBaseURL = Some (URL (baseUri cd)),
                   refreshSchemaCache =
                     (if refresh = Some (FlagBool True) then Some (FlagNumber now) else refresh)\<rparr>
                  (cells cd)) \<and>
         (\<forall>mm. createModelMaterializer is_url now u (Some cd) refresh = Inr (Some mm) \<longrightarrow>
            urls_used mm = map (\<lambda>cell. URL (uri cell)) (filter is_malloy (cells cd))) \<and>
         (createModelMaterializer is_url now u (Some cd) refresh = Inr None \<longleftrightarrow>
            filter is_malloy (cells cd) = []) \<and>
         (\<forall>a b c other lo.
            cells cd = [\<lparr>uri = a, languageId = ''malloy''\<rparr>, \<lparr>uri = b, languageId = other\<rparr>,
                        \<lparr>uri = c, languageId = ''malloy''\<rparr>] \<and> other \<noteq> ''malloy'' \<and>
            lo = \<lparr>importBaseURL = Some (URL (baseUri cd)),
                  refreshSchemaCache =
                    (if refresh = Some (FlagBool True) then Some (FlagNumber now) else refresh)\<rparr> \<longrightarrow>
            createModelMaterializer is_url now u (Some cd) refresh =
              Inr (Some (ExtendModel (LoadModel (URL a) lo) (URL c) lo)))"
proof -
  note eq = create_with_cells [OF assms, of now refresh]
  have none: "accumulated_model lo cs = None \<longleftrightarrow> filter is_malloy cs = []" for lo cs
    by (simp add: accumulated_model_def split: list.splits)
  have three: "accumulated_model lo
                 [\<lparr>uri = a, languageId = ''malloy''\<rparr>, \<lparr>uri = b, languageId = other\<rparr>,
                  \<lparr>uri = c, languageId = ''malloy''\<rparr>] =
               Some (ExtendModel (LoadModel (URL a) lo) (URL c) lo)"
    if "other \<noteq> ''malloy''" for lo a b c other
    using that by (simp add: accumulated_model_def is_malloy_def)
  show ?thesis
    unfolding eq
    by (auto simp: accumulated_model_urls none three)
qed

theorem cells_accumulate_one_model_witness:
  "urls_ok (\<lambda>s. True) ''file:///nb.malloynb'' (Some notebook) \<and>
   createModelMaterializer (\<lambda>s. True) 1700000000000 ''file:///nb.malloynb'' (Some notebook) None =
     Inr (Some (ExtendModel
       (LoadModel (URL ''cell:/nb.malloynb#a'')
          \<lparr>importBaseURL = Some (URL ''file:///nb.malloynb''), refreshSchemaCache = None\<rparr>)
       (URL ''cell:/nb.malloynb#c'')
       \<lparr>importBaseURL = Some (URL ''file:///nb.malloynb''), refreshSchemaCache = None\<rparr>))"
proof -
  have ok: "urls_ok (\<lambda>s. True) ''file:///nb.malloynb'' (Some notebook)"
    by (simp add: urls_ok_def list_all_iff)
  from cells_accumulate_one_model [OF ok, of 1700000000000 None] ok
  show ?thesis
    by (simp add: notebook_def accumulated_model_def is_malloy_def)
qed

text \<open>
  C6, as stated, fails. The flag is turned into a timestamp only inside the branch for cell
  data. Without cell data a flag of \<^verbatim>\<open>true\<close> reaches \<^verbatim>\<open>loadModel\<close> as \<^verbatim>\<open>true\<close>.
\<close>

theorem true_flag_unchanged_without_cells:
  "createModelMaterializer (\<lambda>s. True) 1700000000000 ''file:///q.malloy'' None (Some (FlagBool True)) =
     Inr (Some (LoadModel (URL ''file:///q.malloy'')
            \<lparr>importBaseURL = None, refreshSchemaCache = Some (FlagBool True)\<rparr>))"
  by (simp add: createModelMaterializer_def)

text \<open>
  C6, amended. With cell data, every library call that builds the model carries the same
  resolved flag: the current timestamp, read once, when the flag given is \<^verbatim>\<open>true\<close>, and the
  flag as given otherwise, so that a number is passed through unchanged and an omitted
  flag stays omitted. Without cell data the flag is handed to \<^verbatim>\<open>loadModel\<close> exactly as
  given, \<^verbatim>\<open>true\<close> included.
\<close>

theorem refresh_flag_with_and_without_cells:
  assumes "urls_ok is_url u cellData"
  shows "(cellData = None \<longrightarrow>
            createModelMaterializer is_url now u cellData refresh =
              Inr (Some (LoadModel (URL u) \<lparr>importBaseURL = None, refreshSchemaCache = refresh\<rparr>))) \<and>
         (\<forall>mm lo. cellData \<noteq> None \<and>
              createModelMaterializer is_url now u cellData refresh = Inr (Some mm) \<and>
              lo \<in> set (options_used mm) \<longrightarrow>
            refreshSchemaCache lo =
              (if refresh = Some (FlagBool True) then Some (FlagNumber now) else refresh))"
proof (cases cellData)
  case None
  with assms show ?thesis
    by (simp add: create_without_cells)
next
  case (Some cd)
  with assms have "urls_ok is_url u (Some cd)"
    by simp
  from create_with_cells [OF this, of now refresh] show ?thesis
    using Some by (auto dest: accumulated_model_options)
qed

theorem refresh_flag_with_and_without_cells_witness:
  "urls_ok (\<lambda>s. True) ''file:///nb.malloynb'' (Some notebook) \<and>
   map refreshSchemaCache
     (case createModelMaterializer (\<lambda>s. True) 1700000000000 ''file:///nb.malloynb'' (Some notebook)
             (Some (FlagBool True)) of
        Inr (Some mm) \<Rightarrow> options_used mm | _ \<Rightarrow> []) =
     [Some (FlagNumber 1700000000000), Some (FlagNumber 1700000000000)] \<and>
   map refreshSchemaCache
     (case createModelMaterializer (\<lambda>s. True) 1700000000000 ''file:///nb.malloynb'' (Some notebook)
             (Some (FlagNumber 42)) of
        Inr (Some mm) \<Rightarrow> options_used mm | _ \<Rightarrow> []) =
     [Some (FlagNumber 42), Some (FlagNumber 42)]"
proof -
  have ok: "urls_ok (\<lambda>s. True) ''file:///nb.malloynb'' (Some notebook)"
    by (simp add: urls_ok_def list_all_iff)
  from refresh_flag_with_and_without_cells [OF ok, of 1700000000000 "Some (FlagBool True)"] ok
  show ?thesis
    by (simp add: materializer_eval)
qed

text \<open>
  C8. With every string given to \<^verbatim>\<open>new URL\<close> a URL: when no model was produced the call
  fails with \<^verbatim>\<open>Missing model definition\<close>; when a model was produced the type tag selects
  the runnable, \<^verbatim>\<open>string\<close> by the text, \<^verbatim>\<open>named\<close> by the name, \<^verbatim>\<open>file\<close> by the index, where
  the index -1 selects the final query, \<^verbatim>\<open>named_sql\<close> by the name and \<^verbatim>\<open>unnamed_sql\<close> by
  the index, and any other tag fails with \<^verbatim>\<open>Internal Error: Unexpected query type\<close>. The
  call fails exactly when no model was produced or the tag is none of the five, and no
  model is produced exactly when cell data is given and none of its cells is a \<^verbatim>\<open>malloy\<close>
  cell.
\<close>

theorem createRunnable_resolves_by_tag:
  assumes "urls_ok is_url (q_uri query) cellData"
  shows "(createModelMaterializer is_url now (q_uri query) cellData None = Inr None \<longrightarrow>
            createRunnable is_url now query cellData = Inl (Error ''Missing model definition'')) \<and>
         (\<forall>mm. createModelMaterializer is_url now (q_uri query) cellData None = Inr (Some mm) \<longrightarrow>
            (q_type query = ''string'' \<longrightarrow>
               createRunnable is_url now query cellData = Inr (LoadQuery mm (q_text query))) \<and>
            (q_type query = ''named'' \<longrightarrow>
               createRunnable is_url now query cellData = Inr (LoadQueryByName mm (q_name query))) \<and>
            (q_type query = ''file'' \<and> q_index query = Some (- 1) \<longrightarrow>
               createRunnable is_url now query cellData = Inr (LoadFinalQuery mm)) \<and>
            (q_type query = ''file'' \<and> q_index query \<noteq> Some (- 1) \<longrightarrow>
               createRunnable is_url now query cellData = Inr (LoadQueryByIndex mm (q_index query))) \<and>
            (q_type query = ''named_sql'' \<longrightarrow>
               createRunnable is_url now query cellData = Inr (LoadSQLBlockByName mm (q_name query))) \<and>
            (q_type query = ''unnamed_sql'' \<longrightarrow>
               createRunnable is_url now query cellData = Inr (LoadSQLBlockByIndex mm (q_index query))) \<and>
            (\<not> recognized (q_type query) \<longrightarrow>
               createRunnable is_url now query cellData =
                 Inl (Error ''Internal Error: Unexpected query type''))) \<and>
         ((\<exists>e. createRunnable is_url now query cellData = Inl e) \<longleftrightarrow>
            createModelMaterializer is_url now (q_uri query) cellData None = Inr None \<or>
            \<not> recognized (q_type query)) \<and>
         (createModelMaterializer is_url now (q_uri query) cellData None = Inr None \<longleftrightarrow>
            (\<exists>cd. cellData = Some cd \<and> filter is_malloy (cells cd) = []))"
proof -
  from create_never_fails_on_urls [OF assms, of now None]
  obtain r where r: "createModelMaterializer is_url now (q_uri query) cellData None = Inr r"
    by blast
  have tags: ?thesis if "r = Some mm" for mm
    using r that create_none_iff [OF assms, of now None]
    by (auto simp: createRunnable_def recognized_def)
  have missing: ?thesis if "r = None"
    using r that create_none_iff [OF assms, of now None]
    by (auto simp: createRunnable_def recognized_def)
  show ?thesis
    using tags missing by (cases r) auto
qed

theorem createRunnable_resolves_by_tag_witness:
  "urls_ok (\<lambda>s. True) ''file:///q.malloy'' None \<and>
   createRunnable (\<lambda>s. True) 0
       \<lparr>q_type = ''file'', q_uri = ''file:///q.malloy'', q_text = None, q_name = None,
        q_index = Some (- 1)\<rparr> None =
     Inr (LoadFinalQuery (LoadModel (URL ''file:///q.malloy'')
            \<lparr>importBaseURL = None, refreshSchemaCache = None\<rparr>)) \<and>
   createRunnable (\<lambda>s. True) 0
       \<lparr>q_type = ''file'', q_uri = ''file:///q.malloy'', q_text = None, q_name = None,
        q_index = Some (- 1)\<rparr> (Some \<lparr>baseUri = ''file:///q.malloy'', cells = []\<rparr>) =
     Inl (Error ''Missing model definition'')"
proof -
  have ok: "urls_ok (\<lambda>s. True) ''file:///q.malloy'' None"
    by (simp add: urls_ok_def)
  from createRunnable_resolves_by_tag [where query = "\<lparr>q_type = ''file'',
      q_uri = ''file:///q.malloy'', q_text = None, q_name = None, q_index = Some (- 1)\<rparr>"
      and is_url = "\<lambda>s. True" and cellData = None and now = 0] ok
  show ?thesis
    by (simp add: createRunnable_def createModelMaterializer_def)
qed

section \<open>Properties of the pre-save handler\<close>

lemma map_filter_Cons:
  "List.map_filter f (x # xs) =
     (case f x of None \<Rightarrow> List.map_filter f xs | Some y \<Rightarrow> y # List.map_filter f xs)"
  by (simp add: List.map_filter_def split: option.splits)

lemma set_map_filter:
  "set (List.map_filter f xs) = {y. \<exists>x\<in>set xs. f x = Some y}"
  by (induction xs) (auto simp: map_filter_Cons List.map_filter_def split: option.splits)

lemma saved_form_cases:
  "saved_form di (i, c) =
     (if password c = Missing then
        (if isGenerated c then None else Some (c\<lparr>isDefault := (Some i = di)\<rparr>))
      else case truthy_password (password c) of
             None \<Rightarrow> None
           | Some pw \<Rightarrow> Some (c\<lparr>isDefault := (Some i = di), password := Undefined,
                                useKeychainPassword := Some True\<rparr>))"
  by (simp add: saved_form_def truthy_password_def split: property.splits)

lemma presave_loop_result:
  "presave_loop rejects di i cs acc kc = (Inr out, kc') \<Longrightarrow>
   out = acc @ List.map_filter (saved_form di) (enumerate i cs) \<and>
   kc' = kc @ concat (map keychain_calls cs)"
proof (induction cs arbitrary: i acc kc)
  case Nil
  then show ?case by (simp add: List.map_filter_def)
next
  case (Cons c rest)
  note sf = saved_form_cases [of di i c]
  note kc = keychain_calls_def [of c]
  show ?case
  proof (cases "password c = Missing")
    case True
    with Cons.prems show ?thesis
      by (auto simp: map_filter_Cons sf kc Let_def dest!: Cons.IH split: if_splits)
  next
    case False
    show ?thesis
    proof (cases "truthy_password (password c)")
      case None
      with False Cons.prems show ?thesis
        by (auto simp: map_filter_Cons sf kc deletePassword_def account_def Let_def
            dest!: Cons.IH split: if_splits)
    next
      case (Some pw)
      with False Cons.prems show ?thesis
        by (auto simp: map_filter_Cons sf kc deletePassword_def setPassword_def account_def Let_def
            dest!: Cons.IH split: if_splits)
    qed
  qed
qed

lemma presave_loop_total:
  assumes "\<And>call. \<not> rejects call"
  shows "\<exists>out kc'. presave_loop rejects di i cs acc kc = (Inr out, kc')"
proof (induction cs arbitrary: i acc kc)
  case Nil
  show ?case by simp
next
  case (Cons c rest)
  show ?case
    using assms Cons.IH
    by (cases "password c")
      (simp_all add: truthy_password_def deletePassword_def setPassword_def Let_def)
qed

lemma saved_form_no_plaintext:
  "saved_form di ic = Some c' \<Longrightarrow>
   (password c' = Missing \<or> password c' = Undefined) \<and>
   (password c' = Undefined \<longrightarrow> useKeychainPassword c' = Some True)"
  by (cases ic) (auto simp: saved_form_cases split: if_splits option.splits)

text \<open>
  C10. Whenever the handler returns a list, that list is the input taken in order with
  each connection replaced by what is said of it: a connection whose password field
  holds a non-empty string is there with the password \<^verbatim>\<open>undefined\<close> and
  \<^verbatim>\<open>useKeychainPassword\<close> true, and \<^verbatim>\<open>setPassword\<close> was called with its password; a
  connection whose password field is there but empty or \<^verbatim>\<open>undefined\<close> is left out, and so is
  a generated connection without the field. No entry of the list holds a password string.
  The handler returns a list whenever no keychain call rejects.
\<close>

theorem presave_scrubs_passwords:
  "(\<forall>out kc'. handleConnectionsPreSave getDefaultIndex rejects cs kc = (Inr out, kc') \<longrightarrow>
      out = List.map_filter (saved_form (getDefaultIndex cs)) (enumerate 0 cs) \<and>
      kc' = kc @ concat (map keychain_calls cs) \<and>
      (\<forall>c\<in>set out. (password c = Missing \<or> password c = Undefined) \<and>
         (password c = Undefined \<longrightarrow> useKeychainPassword c = Some True)) \<and>
      (\<forall>i pw. i < length cs \<and> password (cs ! i) = Value pw \<and> pw \<noteq> [] \<longrightarrow>
         (cs ! i)\<lparr>isDefault := (Some i = getDefaultIndex cs), password := Undefined,
                  useKeychainPassword := Some True\<rparr> \<in> set out \<and>
         SetPassword service (account (cs ! i)) pw \<in> set kc')) \<and>
   ((\<forall>call. \<not> rejects call) \<longrightarrow>
      (\<exists>out kc'. handleConnectionsPreSave getDefaultIndex rejects cs kc = (Inr out, kc'))) \<and>
   (\<forall>di i c. (password c = Value [] \<or> password c = Undefined \<longrightarrow> saved_form di (i, c) = None) \<and>
      (password c = Missing \<and> isGenerated c \<longrightarrow> saved_form di (i, c) = None) \<and>
      (password c = Missing \<and> \<not> isGenerated c \<longrightarrow>
         saved_form di (i, c) = Some (c\<lparr>isDefault := (Some i = di)\<rparr>)))"
proof -
  let ?di = "getDefaultIndex cs"
  have returned: "out = List.map_filter (saved_form ?di) (enumerate 0 cs) \<and>
      kc' = kc @ concat (map keychain_calls cs) \<and>
      (\<forall>c\<in>set out. (password c = Missing \<or> password c = Undefined) \<and>
         (password c = Undefined \<longrightarrow> useKeychainPassword c = Some True)) \<and>
      (\<forall>i pw. i < length cs \<and> password (cs ! i) = Value pw \<and> pw \<noteq> [] \<longrightarrow>
         (cs ! i)\<lparr>isDefault := (Some i = ?di), password := Undefined,
                  useKeychainPassword := Some True\<rparr> \<in> set out \<and>
         SetPassword service (account (cs ! i)) pw \<in> set kc')"
    if h: "handleConnectionsPreSave getDefaultIndex rejects cs kc = (Inr out, kc')" for out kc'
  proof -
    from h have "presave_loop rejects ?di 0 cs [] kc = (Inr out, kc')"
      by (simp add: handleConnectionsPreSave_def)
    from presave_loop_result [OF this]
    have out: "out = List.map_filter (saved_form ?di) (enumerate 0 cs)"
      and kc': "kc' = kc @ concat (map keychain_calls cs)"
      by simp_all
    have plain: "(password c = Missing \<or> password c = Undefined) \<and>
         (password c = Undefined \<longrightarrow> useKeychainPassword c = Some True)"
      if "c \<in> set out" for c
      using that saved_form_no_plaintext unfolding out set_map_filter by blast
    have kept: "(cs ! i)\<lparr>isDefault := (Some i = ?di), password := Undefined,
                  useKeychainPassword := Some True\<rparr> \<in> set out \<and>
         SetPassword service (account (cs ! i)) pw \<in> set kc'"
      if i: "i < length cs" and p: "password (cs ! i) = Value pw" and n: "pw \<noteq> []" for i pw
    proof -
      from i have m: "(i, cs ! i) \<in> set (enumerate 0 cs)"
        by (simp add: in_set_enumerate_eq)
      from p n have "saved_form ?di (i, cs ! i) =
          Some ((cs ! i)\<lparr>isDefault := (Some i = ?di), password := Undefined,
                  useKeychainPassword := Some True\<rparr>)"
        by (simp add: saved_form_def)
      with m have a: "(cs ! i)\<lparr>isDefault := (Some i = ?di), password := Undefined,
                  useKeychainPassword := Some True\<rparr> \<in> set out"
        unfolding out set_map_filter by blast
      from p n have "SetPassword service (account (cs ! i)) pw \<in> set (keychain_calls (cs ! i))"
        by (simp add: keychain_calls_def truthy_password_def)
      moreover from i have "cs ! i \<in> set cs"
        by simp
      ultimately have "SetPassword service (account (cs ! i)) pw \<in> set kc'"
        unfolding kc' by auto
      with a show ?thesis by simp
    qed
    from out kc' plain kept show ?thesis by blast
  qed
  have total: "\<exists>out kc'. handleConnectionsPreSave getDefaultIndex rejects cs kc = (Inr out, kc')"
    if "\<forall>call. \<not> rejects call"
    using that presave_loop_total [of rejects ?di 0 cs "[]" kc]
    by (simp add: handleConnectionsPreSave_def)
  have forms: "(password c = Value [] \<or> password c = Undefined \<longrightarrow> saved_form di (i, c) = None) \<and>
      (password c = Missing \<and> isGenerated c \<longrightarrow> saved_form di (i, c) = None) \<and>
      (password c = Missing \<and> \<not> isGenerated c \<longrightarrow>
         saved_form di (i, c) = Some (c\<lparr>isDefault := (Some i = di)\<rparr>))" for di i c
    by (auto simp: saved_form_def)
  from returned total forms show ?thesis
    by blast
qed

theorem presave_scrubs_passwords_witness:
  "handleConnectionsPreSave (\<lambda>l. Some 0) (\<lambda>call. False)
     [bigquery_default\<lparr>name := ''pg'', backend := Postgres, id' := ''pg'', password := Value ''secret''\<rparr>,
      bigquery_default\<lparr>name := ''pg2'', backend := Postgres, id' := ''pg2'', password := Value []\<rparr>,
      duckdb_default\<lparr>isGenerated := True\<rparr>,
      bigquery_default] [] =
     (Inr [bigquery_default\<lparr>name := ''pg'', backend := Postgres, id' := ''pg'', password := Undefined,
             useKeychainPassword := Some True\<rparr>,
           bigquery_default\<lparr>isDefault := False\<rparr>],
      [SetPassword ''com.malloy-lang.vscode-extension'' ''connections.pg.password'' ''secret''])"
  using presave_scrubs_passwords [of "\<lambda>l. Some 0" "\<lambda>call. False"
      "[bigquery_default\<lparr>name := ''pg'', backend := Postgres, id' := ''pg'', password := Value ''secret''\<rparr>,
      bigquery_default\<lparr>name := ''pg2'', backend := Postgres, id' := ''pg2'', password := Value []\<rparr>,
      duckdb_default\<lparr>isGenerated := True\<rparr>,
      bigquery_default]" "[]"]
  by (simp add: handleConnectionsPreSave_def bigquery_default_def duckdb_default_def
      truthy_password_def setPassword_def deletePassword_def service_def account_def Let_def)

end
